theory Spec2Isabelle
  imports Complex_Main
begin

text \<open>
  The browser client of SaddleUp.io (the class SaddleUpGame of the frontend script): its
  session state, the handlers of the socket's events and of the user's actions, and the
  display helpers, followed by the properties of the specification they were checked
  against.
\<close>

section \<open>JavaScript values used by the display helpers\<close>

text \<open>
  A JavaScript Number is a finite binary64 value, an infinity or NaN.  A finite value is
  modelled by the real number it denotes: the comparisons and the rounding of
  \<^verbatim>\<open>toFixed\<close> below are defined by ECMAScript on that exact real value.
\<close>

datatype jsnum = Num real | PosInf | NegInf | NaN

datatype jsval = Null | Undefined | Number jsnum

text \<open>The relational operator \<^verbatim>\<open><=\<close> on Numbers: every comparison with NaN is false.\<close>

fun js_le :: "jsnum \<Rightarrow> jsnum \<Rightarrow> bool" where
  "js_le NaN _ = False"
| "js_le _ NaN = False"
| "js_le NegInf _ = True"
| "js_le _ PosInf = True"
| "js_le (Num a) (Num b) = (a \<le> b)"
| "js_le PosInf _ = False"
| "js_le _ NegInf = False"

subsection \<open>getOddsTier\<close>

definition getOddsTier :: "jsnum \<Rightarrow> string" where
  "getOddsTier winnerOdds =
     (if js_le winnerOdds (Num (3/2)) then ''odds-favorite''
      else if js_le winnerOdds (Num (5/2)) then ''odds-strong''
      else if js_le winnerOdds (Num 4) then ''odds-moderate''
      else if js_le winnerOdds (Num 8) then ''odds-long''
      else ''odds-longshot'')"

text \<open>
  The five tiers in decreasing favorite-ness, and the position of a tier in that order
  (a class name that is no tier gets position 5).
\<close>

definition tiers :: "string list" where
  "tiers = [''odds-favorite'', ''odds-strong'', ''odds-moderate'', ''odds-long'', ''odds-longshot'']"

fun index_of :: "string \<Rightarrow> string list \<Rightarrow> nat" where
  "index_of t [] = 0"
| "index_of t (x # xs) = (if t = x then 0 else Suc (index_of t xs))"

definition tier_rank :: "string \<Rightarrow> nat" where
  "tier_rank t = index_of t tiers"

subsection \<open>Number.prototype.toFixed(2) and formatOdds\<close>

definition digit :: "nat \<Rightarrow> char" where
  "digit d = ''0123456789'' ! (d mod 10)"

fun dec :: "nat \<Rightarrow> string" where
  "dec n = (if n < 10 then [digit n] else dec (n div 10) @ [digit (n mod 10)])"

declare dec.simps [simp del]

text \<open>
  \<^verbatim>\<open>toFixed(2)\<close> on a value \<open>0 \<le> y < 10^21\<close>: take the integer \<open>n\<close> with \<open>n / 100\<close> closest
  to \<open>y\<close> (the larger one on a tie), write its digits, pad with zeros to three digits and
  put the point before the last two.
\<close>

definition fixed_digits :: "real \<Rightarrow> string" where
  "fixed_digits y =
     (let n = nat \<lfloor>y * 100 + 1/2\<rfloor>;
          m = dec n;
          k = length m;
          m' = (if k \<le> 2 then replicate (3 - k) (CHR ''0'') @ m else m);
          k' = (if k \<le> 2 then 3 else k)
      in take (k' - 2) m' @ ''.'' @ drop (k' - 2) m')"

text \<open>
  For a magnitude of \<open>10^21\<close> or more \<^verbatim>\<open>toFixed\<close> hands over to Number::toString, whose
  exponential digits depend on the binary64 representation and are not modelled:
  \<open>CharsThenNumber p y\<close> stands for the characters \<open>p\<close> followed by the engine's
  Number::toString of \<open>y\<close>.
\<close>

datatype rendered = Chars string | CharsThenNumber string real

fun prepend :: "string \<Rightarrow> rendered \<Rightarrow> rendered" where
  "prepend p (Chars t) = Chars (p @ t)"
| "prepend p (CharsThenNumber q y) = CharsThenNumber (p @ q) y"

definition toFixed2 :: "jsnum \<Rightarrow> rendered" where
  "toFixed2 v =
     (case v of
        NaN \<Rightarrow> Chars ''NaN''
      | PosInf \<Rightarrow> Chars ''Infinity''
      | NegInf \<Rightarrow> Chars ''-Infinity''
      | Num x \<Rightarrow>
          (let s = (if x < 0 then ''-'' else []);
               y = \<bar>x\<bar>
           in if y \<ge> 10 ^ 21 then CharsThenNumber s y else Chars (s @ fixed_digits y)))"

text \<open>The guard \<^verbatim>\<open>!odds || isNaN(odds)\<close> of formatOdds.\<close>

fun falsy :: "jsval \<Rightarrow> bool" where
  "falsy Null = True"
| "falsy Undefined = True"
| "falsy (Number n) = (n = Num 0 \<or> n = NaN)"

fun js_isNaN :: "jsval \<Rightarrow> bool" where
  "js_isNaN Null = False"
| "js_isNaN Undefined = True"
| "js_isNaN (Number n) = (n = NaN)"

definition formatOdds_fallback :: "jsval \<Rightarrow> bool" where
  "formatOdds_fallback odds = (falsy odds \<or> js_isNaN odds)"

text \<open>
  Past the guard the value is a Number (null and undefined have taken the fallback), and
  \<^verbatim>\<open>toFixed\<close> is called on it.
\<close>

fun formatOdds :: "jsval \<Rightarrow> rendered" where
  "formatOdds (Number n) =
     (if formatOdds_fallback (Number n) then Chars ''$2.00''
      else prepend ''$'' (toFixed2 n))"
| "formatOdds v = Chars ''$2.00''"


section \<open>The game session: data model\<close>

text \<open>
  The state is the instance state of the class SaddleUpGame.  Writes that only render
  (text content, class lists, inner HTML of page elements) are left out; two effects are
  logged because the handlers are judged by them: the messages passed to showError
  (\<open>notices\<close>) and the frames passed to the socket's send (\<open>sent\<close>).
\<close>

datatype bet_type = Winner | Place | Trifecta

datatype phase = Betting | Racing | Results

text \<open>Values that arrive in a parsed JSON frame as fields of the user object.\<close>

datatype json = JNull | JNum real | JStr string

type_synonym jsobj = "string \<rightharpoonup> json"

record horse =
  horse_id :: int
  horse_name :: string
  horse_position :: real
  horse_finished :: bool

record odds =
  winner :: real
  place :: real

record race =
  race_id :: int
  race_phase :: phase
  race_time_remaining :: real
  race_horses :: "horse list"
  race_odds :: "int \<rightharpoonup> odds"

datatype odds_at = Variable | OddsValue real

text \<open>
  A bet as the server confirms it (type, amount, selection) together with the fields
  addBetToCurrentRace adds to its copy; they are absent in the server's object.
\<close>

record bet =
  bet_kind :: bet_type
  bet_amount :: real
  bet_selection :: "int list"
  displayText :: "string option"
  horseName :: "string option"
  oddsAtBetting :: "odds_at option"

datatype frame =
    Login string
  | PlaceBetFrame bet_type real "int list"
  | GetRaceState
  | GetLeaderboard

datatype ready_state = CONNECTING | OPEN | CLOSING | CLOSED

text \<open>
  \<open>socks\<close> are the WebSocket objects created so far with their ready states, \<open>ws\<close> is
  the index of the one held in \<^verbatim>\<open>this.ws\<close>, and \<open>timers\<close> holds the delay of every
  pending timeout that will call connect.  \<open>usernameInput\<close> is the trimmed text of the
  login field.
\<close>

record game =
  user :: "jsobj option"
  currentRace :: "race option"
  selectedBetType :: bet_type
  selectedHorse :: "int option"
  trifectaSelection :: "int list"
  currentRaceBets :: "bet list"
  currentOdds :: "int \<rightharpoonup> odds"
  connected :: bool
  ws :: "nat option"
  socks :: "ready_state list"
  timers :: "nat list"
  sent :: "frame list"
  notices :: "string list"
  usernameInput :: string

text \<open>An uncaught TypeError ends the running handler; what it wrote before stays written.\<close>

datatype completion = Normal | TypeError

section \<open>Transport\<close>

definition showError :: "string \<Rightarrow> game \<Rightarrow> game" where
  "showError message s = s\<lparr>notices := notices s @ [message]\<rparr>"

definition ws_open :: "game \<Rightarrow> bool" where
  "ws_open s = (case ws s of None \<Rightarrow> False
                | Some k \<Rightarrow> k < length (socks s) \<and> socks s ! k = OPEN)"

definition send :: "frame \<Rightarrow> game \<Rightarrow> game" where
  "send message s =
     (if ws_open s then s\<lparr>sent := sent s @ [message]\<rparr>
      else showError ''Connection not ready. Please wait and try again.'' s)"

definition connect :: "game \<Rightarrow> game" where
  "connect s = s\<lparr>socks := socks s @ [CONNECTING], ws := Some (length (socks s))\<rparr>"

definition login :: "game \<Rightarrow> game" where
  "login s =
     (if usernameInput s = [] then showError ''Please enter a username'' s
      else send (Login (usernameInput s)) s)"

definition ws_onopen :: "game \<Rightarrow> game" where
  "ws_onopen s = login (s\<lparr>connected := True\<rparr>)"

definition ws_onclose :: "game \<Rightarrow> game" where
  "ws_onclose s = s\<lparr>connected := False, timers := timers s @ [3000]\<rparr>"

section \<open>Selection and bet submission\<close>

definition clearTrifectaSelection :: "game \<Rightarrow> game" where
  "clearTrifectaSelection s = s\<lparr>trifectaSelection := []\<rparr>"

definition clearSelections :: "game \<Rightarrow> game" where
  "clearSelections s = s\<lparr>trifectaSelection := []\<rparr>"

definition selectBetType :: "bet_type \<Rightarrow> game \<Rightarrow> game" where
  "selectBetType t s = s\<lparr>selectedBetType := t, selectedHorse := None, trifectaSelection := []\<rparr>"

fun bet_type_name :: "bet_type \<Rightarrow> string" where
  "bet_type_name Winner = ''winner''"
| "bet_type_name Place = ''place''"
| "bet_type_name Trifecta = ''trifecta''"

definition placeTrifectaBet :: "game \<Rightarrow> game" where
  "placeTrifectaBet s =
     (if length (trifectaSelection s) \<noteq> 3 then showError ''Please select exactly 3 horses'' s
      else if list_ex (\<lambda>b. bet_kind b = Trifecta) (currentRaceBets s)
        then showError ''You can only place one trifecta bet per race'' s
      else clearTrifectaSelection (send (PlaceBetFrame Trifecta 1 (trifectaSelection s)) s))"

text \<open>\<^verbatim>\<open>!this.currentRace || this.currentRace.phase !== 'betting'\<close>\<close>

definition betting_closed :: "game \<Rightarrow> bool" where
  "betting_closed s = (case currentRace s of None \<Rightarrow> True | Some r \<Rightarrow> race_phase r \<noteq> Betting)"

text \<open>\<^verbatim>\<open>!this.selectedHorse\<close> holds for null and also for the id 0.\<close>

definition placeBet :: "game \<Rightarrow> game" where
  "placeBet s =
     (if betting_closed s then showError ''Betting is closed'' s
      else if selectedBetType s = Trifecta then placeTrifectaBet s
      else (case selectedHorse s of
              None \<Rightarrow> showError ''Please select a horse'' s
            | Some h \<Rightarrow>
                if h = 0 then showError ''Please select a horse'' s
                else if list_ex (\<lambda>b. bet_kind b = selectedBetType s) (currentRaceBets s)
                  then showError (''You can only place one '' @ bet_type_name (selectedBetType s)
                                   @ '' bet per race'') s
                else clearSelections
                       ((send (PlaceBetFrame (selectedBetType s) 1 [h]) s)\<lparr>selectedHorse := None\<rparr>)))"

text \<open>
  \<^verbatim>\<open>parseInt\<close> on a horse id, an integer Number.  Below the magnitude \<open>10^21\<close>
  Number::toString writes the integer by its decimal digits and \<^verbatim>\<open>parseInt\<close> reads the
  same integer back.  From \<open>10^21\<close> on the id is written in exponent notation, of which
  \<^verbatim>\<open>parseInt\<close> reads the leading digit only; which digit that is depends on the binary64
  representation, and this case is left out of the model (\<open>None\<close>).
\<close>

definition parseInt :: "int \<Rightarrow> int option" where
  "parseInt horseId = (if \<bar>horseId\<bar> < 10 ^ 21 then Some horseId else None)"

definition selectTrifectaHorse :: "int \<Rightarrow> game \<Rightarrow> game option" where
  "selectTrifectaHorse horseId s =
     (if selectedBetType s \<noteq> Trifecta then Some s
      else case parseInt horseId of
        None \<Rightarrow> None
      | Some horseIdNum \<Rightarrow>
          Some (if horseIdNum \<in> set (trifectaSelection s)
                  then s\<lparr>trifectaSelection :=
                            filter (\<lambda>i. i \<noteq> horseIdNum) (trifectaSelection s)\<rparr>
                else if length (trifectaSelection s) < 3
                  then s\<lparr>trifectaSelection := trifectaSelection s @ [horseIdNum]\<rparr>
                else showError ''You can only select 3 horses for box trifecta'' s))"

definition handleSingleBetSelection :: "int \<Rightarrow> game \<Rightarrow> game" where
  "handleSingleBetSelection horseId s = placeBet (s\<lparr>selectedHorse := Some horseId\<rparr>)"

definition handleTrifectaSelection :: "int \<Rightarrow> game \<Rightarrow> game option" where
  "handleTrifectaSelection horseId s = selectTrifectaHorse horseId s"

definition selectHorse :: "int \<Rightarrow> game \<Rightarrow> game option" where
  "selectHorse horseId s =
     (if selectedBetType s = Trifecta then handleTrifectaSelection horseId s
      else Some (handleSingleBetSelection horseId s))"

subsection \<open>Mystery trifecta\<close>

text \<open>
  The source of random indices: \<open>Rep_index_source rnd i n\<close> is the value of
  \<^verbatim>\<open>Math.floor(Math.random() * n)\<close> in iteration \<open>i\<close> of the drawing loop, where \<open>n\<close> is the
  number of candidates left.  \<^verbatim>\<open>Math.random()\<close> is below 1, so the binary64 product is
  below \<open>n\<close> and the index is in range; which index a given random number leads to depends
  on the rounding of that product and is not modelled.
\<close>

typedef index_source = "{f :: nat \<Rightarrow> nat \<Rightarrow> nat. \<forall>i n. 0 < n \<longrightarrow> f i n < n}"
  by (rule exI [of _ "\<lambda>i n. 0"]) simp

text \<open>
  The drawing loop.  The index is in range, so \<^verbatim>\<open>splice(randomIndex, 1)\<close> removes and
  returns the element at that index.
\<close>

function mystery_loop :: "index_source \<Rightarrow> nat \<Rightarrow> int list \<Rightarrow> int list \<Rightarrow> int list" where
  "mystery_loop rnd i horsesCopy selectedHorses =
     (if i < 3 \<and> length horsesCopy > 0 then
        let randomIndex = Rep_index_source rnd i (length horsesCopy);
            selectedHorse = horsesCopy ! randomIndex
        in mystery_loop rnd (i + 1)
             (take randomIndex horsesCopy @ drop (Suc randomIndex) horsesCopy)
             (selectedHorses @ [selectedHorse])
      else selectedHorses)"
  by pat_completeness auto
termination
  by (relation "measure (\<lambda>(rnd, i, horsesCopy, selectedHorses). 3 - i)") auto

declare mystery_loop.simps [simp del]

definition selectMysteryTrifecta :: "index_source \<Rightarrow> game \<Rightarrow> game" where
  "selectMysteryTrifecta rnd s =
     (case currentRace s of
        None \<Rightarrow> s
      | Some r \<Rightarrow>
          if selectedBetType s \<noteq> Trifecta then s
          else let s1 = clearTrifectaSelection s;
                   availableHorses = map horse_id (race_horses r);
                   selectedHorses = mystery_loop rnd 0 availableHorses []
               in s1\<lparr>trifectaSelection := trifectaSelection s1 @ selectedHorses\<rparr>)"

section \<open>Inbound messages\<close>

subsection \<open>Race state and phase\<close>

text \<open>
  updatePhase: of the session state only the trifecta selection is written, when the
  phase is betting; the rest of the function renders.
\<close>

definition updatePhase :: "phase \<Rightarrow> real \<Rightarrow> game \<Rightarrow> game" where
  "updatePhase ph timeRemaining s = (if ph = Betting then s\<lparr>trifectaSelection := []\<rparr> else s)"

text \<open>\<^verbatim>\<open>!this.currentRace || race.id !== this.currentRace.id\<close>\<close>

definition is_new_race :: "race \<Rightarrow> game \<Rightarrow> bool" where
  "is_new_race r s = (case currentRace s of None \<Rightarrow> True | Some cur \<Rightarrow> race_id r \<noteq> race_id cur)"

text \<open>
  updateRaceState, as the list of the states it goes through: the state it starts in and
  the state after each of its writes to the session state, in the order of the source.
\<close>

definition updateRaceState_trace :: "race \<Rightarrow> game \<Rightarrow> game list" where
  "updateRaceState_trace r s =
     (let s1 = (if is_new_race r s then s\<lparr>currentRaceBets := []\<rparr> else s);
          s2 = (if is_new_race r s then s1\<lparr>trifectaSelection := []\<rparr> else s1);
          s3 = s2\<lparr>currentRace := Some r\<rparr>;
          s4 = updatePhase (race_phase r) (race_time_remaining r) s3
      in [s, s1, s2, s3, s4])"

definition updateRaceState :: "race \<Rightarrow> game \<Rightarrow> game" where
  "updateRaceState r s = last (updateRaceState_trace r s)"

definition updateOdds :: "(int \<rightharpoonup> odds) \<Rightarrow> real \<Rightarrow> game \<Rightarrow> game" where
  "updateOdds newOdds timeRemaining s = s\<lparr>currentOdds := newOdds\<rparr>"

subsection \<open>User\<close>

definition updateBalance :: "real \<Rightarrow> game \<Rightarrow> game" where
  "updateBalance balance s =
     s\<lparr>user := map_option (\<lambda>u. u(''balance'' \<mapsto> JNum balance)) (user s)\<rparr>"

text \<open>
  updateBalance on a field read from the user object: \<^verbatim>\<open>balance.toFixed(2)\<close> throws a
  TypeError unless the field holds a number.
\<close>

definition updateBalance_field :: "json option \<Rightarrow> game \<Rightarrow> completion \<times> game" where
  "updateBalance_field v s =
     (case v of Some (JNum balance) \<Rightarrow> (Normal, updateBalance balance s)
      | _ \<Rightarrow> (TypeError, s))"

definition updateUser :: "jsobj \<Rightarrow> game \<Rightarrow> completion \<times> game" where
  "updateUser userData s =
     (case user s of
        None \<Rightarrow> (Normal, s)
      | Some u \<Rightarrow>
          (let s1 = s\<lparr>user := Some (u ++ userData)\<rparr>
           in updateBalance_field ((u ++ userData) ''balance'') s1))"

fun truthy :: "json \<Rightarrow> bool" where
  "truthy JNull = False"
| "truthy (JNum x) = (x \<noteq> 0)"
| "truthy (JStr t) = (t \<noteq> [])"

record leader =
  leader_username :: string
  leader_balance :: real
  leader_rank :: "real option"

fun leaders_loop :: "leader list \<Rightarrow> nat \<Rightarrow> jsobj \<Rightarrow> bool \<Rightarrow> jsobj \<times> bool" where
  "leaders_loop [] index u found = (u, found)"
| "leaders_loop (l # ls) index u found =
     (if u ''username'' = Some (JStr (leader_username l))
      then let userRank = (case leader_rank l of
                             Some r \<Rightarrow> if r \<noteq> 0 then r else real index + 1
                           | None \<Rightarrow> real index + 1)
           in leaders_loop ls (index + 1) (u(''rank'' \<mapsto> JNum userRank)) True
      else leaders_loop ls (index + 1) u found)"

definition updateLeaderboard :: "leader list \<Rightarrow> real option \<Rightarrow> game \<Rightarrow> game" where
  "updateLeaderboard leaders currentUserRank s =
     (case user s of
        None \<Rightarrow> s
      | Some u \<Rightarrow>
          (case leaders_loop leaders 0 u False of
             (u1, userFoundInLeaderboard) \<Rightarrow>
               if userFoundInLeaderboard then s\<lparr>user := Some u1\<rparr>
               else let rankToUse = (case currentUserRank of
                                       Some c \<Rightarrow> if c \<noteq> 0 then Some (JNum c) else u1 ''rank''
                                     | None \<Rightarrow> u1 ''rank'')
                    in (case rankToUse of
                          Some v \<Rightarrow> if truthy v then s\<lparr>user := Some (u1(''rank'' \<mapsto> v))\<rparr>
                                     else s\<lparr>user := Some u1\<rparr>
                        | None \<Rightarrow> s\<lparr>user := Some u1\<rparr>)))"

subsection \<open>Bet ledger\<close>

definition getHorseCurrentOdds :: "int \<Rightarrow> bet_type \<Rightarrow> game \<Rightarrow> real" where
  "getHorseCurrentOdds horseId betType s =
     (case currentOdds s horseId of
        Some entry \<Rightarrow> (case betType of Winner \<Rightarrow> winner entry | Place \<Rightarrow> place entry | Trifecta \<Rightarrow> 2)
      | None \<Rightarrow> 2)"

text \<open>
  \<^verbatim>\<open>this.currentRace?.horses.find(h => h.id === bet.selection[0])\<close>: no horse when no race
  is held, when the selection is empty or when no horse of the race has that id.
\<close>

definition find_bet_horse :: "game \<Rightarrow> bet \<Rightarrow> horse option" where
  "find_bet_horse s b =
     (case currentRace s of
        None \<Rightarrow> None
      | Some r \<Rightarrow> (case bet_selection b of
                     [] \<Rightarrow> None
                   | h0 # _ \<Rightarrow> find (\<lambda>h. horse_id h = h0) (race_horses r)))"

definition show_int :: "int \<Rightarrow> string" where
  "show_int i = (if i < 0 then ''-'' @ dec (nat (- i)) else dec (nat i))"

fun join_dash :: "string list \<Rightarrow> string" where
  "join_dash [] = []"
| "join_dash [x] = x"
| "join_dash (x # y # ys) = x @ ''-'' @ join_dash (y # ys)"

definition addBetToCurrentRace :: "bet \<Rightarrow> game \<Rightarrow> game" where
  "addBetToCurrentRace b s =
     (let betInfo =
        (if bet_kind b = Trifecta
         then b\<lparr>displayText := Some (join_dash (map show_int (bet_selection b))),
                oddsAtBetting := Some Variable\<rparr>
         else (case find_bet_horse s b of
                 Some h \<Rightarrow> b\<lparr>displayText := Some (horse_name h),
                             horseName := Some (horse_name h),
                             oddsAtBetting :=
                               Some (OddsValue (getHorseCurrentOdds (horse_id h) (bet_kind b) s))\<rparr>
               | None \<Rightarrow> b))
      in s\<lparr>currentRaceBets := currentRaceBets s @ [betInfo]\<rparr>)"

text \<open>
  The product \<^verbatim>\<open>bet.amount * currentOdds\<close> of two Numbers is the binary64 rounding of the
  product of their values.  With a factor 1 it is the other factor, and nothing is
  rounded; the rounding of the other products is left out of the model (\<open>None\<close>).  The
  amount of every bet the client submits is 1.0.
\<close>

definition js_times :: "real \<Rightarrow> real \<Rightarrow> real option" where
  "js_times x y = (if x = 1 then Some y else if y = 1 then Some x else None)"

text \<open>
  The value of \<^verbatim>\<open>potentialPayout\<close> that updateActiveBetsDisplay computes for one bet of the
  ledger (\<open>None\<close> where the product is outside the model), and the values for the whole
  ledger in its order.
\<close>

definition potentialPayout :: "game \<Rightarrow> bet \<Rightarrow> rendered option" where
  "potentialPayout s b =
     (if currentRace s \<noteq> None \<and> bet_kind b \<noteq> Trifecta then
        (case find_bet_horse s b of
           Some h \<Rightarrow>
             (let cur = getHorseCurrentOdds (horse_id h) (bet_kind b) s
              in if cur \<noteq> 0
                 then (case js_times (bet_amount b) cur of
                         Some p \<Rightarrow> Some (prepend ''$'' (toFixed2 (Num p)))
                       | None \<Rightarrow> None)
                 else Some (Chars ''TBD''))
         | None \<Rightarrow> Some (Chars ''TBD''))
      else Some (Chars ''TBD''))"

definition updateActiveBetsDisplay :: "game \<Rightarrow> rendered option list" where
  "updateActiveBetsDisplay s = map (potentialPayout s) (currentRaceBets s)"

subsection \<open>Dispatch\<close>

datatype msg_body =
    ConnectionEstablished
  | LoginSuccess
  | RaceState race
  | OddsUpdate "int \<rightharpoonup> odds" real
  | PhaseUpdate phase real
  | RaceUpdate "horse list"
  | RaceResults
  | BetPlaced real bet
  | Leaderboard "leader list" "real option"
  | ErrorMessage string
  | UnknownType

record message =
  msg_user :: "jsobj option"
  msg_body :: msg_body

text \<open>
  showGameScreen reads \<^verbatim>\<open>this.user.username\<close>, which throws when the login_success
  frame carried no user.  Of the other handlers the dispatch calls, updateHorsePositions,
  showRaceResults, updateHorseGlowEffects and showSuccess only render.
\<close>

definition showGameScreen :: "game \<Rightarrow> completion \<times> game" where
  "showGameScreen s =
     (case user s of
        None \<Rightarrow> (TypeError, s)
      | Some u \<Rightarrow>
          (case updateBalance_field (u ''balance'') s of
             (TypeError, s1) \<Rightarrow> (TypeError, s1)
           | (Normal, s1) \<Rightarrow> (Normal, send GetLeaderboard (send GetRaceState s1))))"

definition dispatch :: "message \<Rightarrow> game \<Rightarrow> completion \<times> game" where
  "dispatch m s =
     (case msg_body m of
        ConnectionEstablished \<Rightarrow> (Normal, s)
      | LoginSuccess \<Rightarrow> showGameScreen (s\<lparr>user := msg_user m\<rparr>)
      | RaceState r \<Rightarrow> (Normal, updateRaceState r s)
      | OddsUpdate newOdds t \<Rightarrow> (Normal, updateOdds newOdds t s)
      | PhaseUpdate ph t \<Rightarrow> (Normal, updatePhase ph t s)
      | RaceUpdate hs \<Rightarrow> (Normal, s)
      | RaceResults \<Rightarrow> (Normal, s)
      | BetPlaced new_balance b \<Rightarrow> (Normal, addBetToCurrentRace b (updateBalance new_balance s))
      | Leaderboard leaders currentUserRank \<Rightarrow> (Normal, updateLeaderboard leaders currentUserRank s)
      | ErrorMessage msg \<Rightarrow> (Normal, showError msg s)
      | UnknownType \<Rightarrow> (Normal, s))"

definition handleMessage :: "message \<Rightarrow> game \<Rightarrow> completion \<times> game" where
  "handleMessage m s =
     (case msg_user m of
        None \<Rightarrow> dispatch m s
      | Some userData \<Rightarrow>
          (case updateUser userData s of
             (TypeError, s1) \<Rightarrow> (TypeError, s1)
           | (Normal, s1) \<Rightarrow> dispatch m s1))"

section \<open>Events\<close>

text \<open>
  The handlers run one at a time, each on one event: an event of a socket, the timeout
  set by the close handler, or an action of the user.  The socket events follow the
  WebSocket interface: open comes to a connecting socket, a message to an open one, and
  close comes once to a socket that is not yet closed.  A frame that JSON.parse rejects
  (\<open>None\<close>) throws before any handler runs.  An event that cannot occur in a state has no
  step from it, and neither has a click on a horse that leads to a call of \<^verbatim>\<open>parseInt\<close>
  outside the model.
\<close>

datatype event =
    SocketOpen nat
  | SocketMessage nat "message option"
  | SocketError nat
  | SocketClose nat
  | ReconnectTimeout
  | TypeUsername string
  | SubmitLogin
  | ClickBetType bet_type
  | ClickHorse int
  | ClickPlaceTrifecta
  | ClickMysteryTrifecta index_source
  | ClickClearTrifecta

definition set_ready :: "nat \<Rightarrow> ready_state \<Rightarrow> game \<Rightarrow> game" where
  "set_ready k r s = s\<lparr>socks := (socks s)[k := r]\<rparr>"

fun step :: "event \<Rightarrow> game \<Rightarrow> game option" where
  "step (SocketOpen k) s =
     (if k < length (socks s) \<and> socks s ! k = CONNECTING
      then Some (ws_onopen (set_ready k OPEN s)) else None)"
| "step (SocketMessage k data) s =
     (if k < length (socks s) \<and> socks s ! k = OPEN
      then (case data of None \<Rightarrow> Some s | Some m \<Rightarrow> Some (snd (handleMessage m s)))
      else None)"
| "step (SocketError k) s = (if k < length (socks s) then Some s else None)"
| "step (SocketClose k) s =
     (if k < length (socks s) \<and> socks s ! k \<noteq> CLOSED
      then Some (ws_onclose (set_ready k CLOSED s)) else None)"
| "step ReconnectTimeout s =
     (case timers s of [] \<Rightarrow> None | d # ds \<Rightarrow> Some (connect (s\<lparr>timers := ds\<rparr>)))"
| "step (TypeUsername name) s = Some (s\<lparr>usernameInput := name\<rparr>)"
| "step SubmitLogin s = Some (login s)"
| "step (ClickBetType t) s = Some (selectBetType t s)"
| "step (ClickHorse horseId) s = selectHorse horseId s"
| "step ClickPlaceTrifecta s = Some (placeTrifectaBet s)"
| "step (ClickMysteryTrifecta rnd) s = Some (selectMysteryTrifecta rnd s)"
| "step ClickClearTrifecta s = Some (clearTrifectaSelection s)"

text \<open>The state the constructor leaves: the initial fields, then connect.\<close>

definition new_game :: game where
  "new_game = connect
     \<lparr>user = None, currentRace = None, selectedBetType = Winner, selectedHorse = None,
      trifectaSelection = [], currentRaceBets = [], currentOdds = Map.empty,
      connected = False, ws = None, socks = [], timers = [], sent = [], notices = [],
      usernameInput = []\<rparr>"

inductive reachable :: "game \<Rightarrow> bool" where
  reachable_new: "reachable new_game"
| reachable_step: "reachable s \<Longrightarrow> step e s = Some s' \<Longrightarrow> reachable s'"

definition live_sockets :: "game \<Rightarrow> nat" where
  "live_sockets s = length (filter (\<lambda>r. r \<noteq> CLOSED) (socks s))"

text \<open>Running a list of events from a state; \<open>None\<close> when one of them cannot occur.\<close>

fun run :: "event list \<Rightarrow> game \<Rightarrow> game option" where
  "run [] s = Some s"
| "run (e # es) s = (case step e s of None \<Rightarrow> None | Some s' \<Rightarrow> run es s')"



section \<open>Sample data\<close>

definition mk_horse :: "int \<Rightarrow> string \<Rightarrow> horse" where
  "mk_horse i name =
     \<lparr>horse_id = i, horse_name = name, horse_position = 0, horse_finished = False\<rparr>"

definition four_horses :: "horse list" where
  "four_horses = [mk_horse 1 ''Thunder'', mk_horse 2 ''Lightning'', mk_horse 3 ''Storm'',
                  mk_horse 4 ''Blaze'']"

definition mk_race :: "int \<Rightarrow> phase \<Rightarrow> race" where
  "mk_race rid ph =
     \<lparr>race_id = rid, race_phase = ph, race_time_remaining = 25, race_horses = four_horses,
      race_odds = Map.empty\<rparr>"

definition mk_bet :: "bet_type \<Rightarrow> int list \<Rightarrow> bet" where
  "mk_bet t sel =
     \<lparr>bet_kind = t, bet_amount = 1, bet_selection = sel, displayText = None,
      horseName = None, oddsAtBetting = None\<rparr>"

definition mk_message :: "msg_body \<Rightarrow> message" where
  "mk_message body = \<lparr>msg_user = None, msg_body = body\<rparr>"

text \<open>
  Two index sources: the one of the random number 0 in every iteration (index 0), and
  the one of the random number 1/2 in every iteration (the product with \<open>n\<close> is exact, and
  its floor is \<open>n div 2\<close>).
\<close>

definition draw_zero :: index_source where
  "draw_zero = Abs_index_source (\<lambda>i n. 0)"

definition draw_half :: index_source where
  "draw_half = Abs_index_source (\<lambda>i n. n div 2)"

text \<open>A user object with a name and a balance, and a payload that carries only a balance.\<close>

definition sample_user :: jsobj where
  "sample_user = [''username'' \<mapsto> JStr ''ann'', ''balance'' \<mapsto> JNum 10]"

definition balance_only :: jsobj where
  "balance_only = [''balance'' \<mapsto> JNum 9]"

text \<open>Sample states, written as the constructor's state with some fields replaced.\<close>

definition held_race_game :: game where
  "held_race_game = new_game\<lparr>currentRace := Some (mk_race 1 Betting)\<rparr>"

definition trifecta_game :: game where
  "trifecta_game = held_race_game\<lparr>selectedBetType := Trifecta\<rparr>"

definition old_race_game :: game where
  "old_race_game = new_game\<lparr>currentRace := Some (mk_race 1 Racing),
     currentRaceBets := [mk_bet Winner [1]], trifectaSelection := [1, 2, 3]\<rparr>"



definition odds_game :: game where
  "odds_game = old_race_game\<lparr>currentOdds := [1 \<mapsto> \<lparr>winner = 5/4, place = 1\<rparr>]\<rparr>"

definition logged_in_game :: game where
  "logged_in_game = new_game\<lparr>user := Some sample_user\<rparr>"

text \<open>
  A session in which the user picks three horses for a trifecta while race 1 is in its
  betting phase, and the race state of the same race then arrives with the phase racing;
  \<open>racing_game\<close> is the state this leads to.
\<close>

definition closed_phase_trail :: "event list" where
  "closed_phase_trail =
     [TypeUsername ''ann'', SocketOpen 0,
      SocketMessage 0 (Some (mk_message (RaceState (mk_race 1 Betting)))),
      ClickBetType Trifecta, ClickHorse 1, ClickHorse 2, ClickHorse 3,
      SocketMessage 0 (Some (mk_message (RaceState (mk_race 1 Racing))))]"

text \<open>
  Another session with the same end: the race state arrives with the phase racing, a
  phase update then announces betting (updatePhase shows the betting panel, the held
  race object keeps its phase), and the user picks three horses for a trifecta.
\<close>

definition stale_phase_trail :: "event list" where
  "stale_phase_trail =
     [TypeUsername ''ann'', SocketOpen 0,
      SocketMessage 0 (Some (mk_message (RaceState (mk_race 1 Racing)))),
      SocketMessage 0 (Some (mk_message (PhaseUpdate Betting 25))),
      ClickBetType Trifecta, ClickHorse 1, ClickHorse 2, ClickHorse 3]"

definition racing_game :: game where
  "racing_game = new_game\<lparr>usernameInput := ''ann'', socks := [OPEN], connected := True,
     sent := [Login ''ann''], currentRace := Some (mk_race 1 Racing),
     selectedBetType := Trifecta, trifectaSelection := [1, 2, 3]\<rparr>"




definition two_horse_race :: race where
  "two_horse_race =
     \<lparr>race_id = 3, race_phase = Betting, race_time_remaining = 25,
      race_horses = [mk_horse 1 ''Thunder'', mk_horse 2 ''Lightning''], race_odds = Map.empty\<rparr>"

definition two_horse_game :: game where
  "two_horse_game = trifecta_game\<lparr>currentRace := Some two_horse_race\<rparr>"

definition stale_selection_game :: game where
  "stale_selection_game = trifecta_game\<lparr>trifectaSelection := [4]\<rparr>"

text \<open>
  A winner bet on horse 1 is confirmed during betting, before any odds update has come,
  and the race state then arrives with the phase racing.
\<close>

definition unpriced_bet_game :: game where
  "unpriced_bet_game =
     updateRaceState (mk_race 1 Racing) (addBetToCurrentRace (mk_bet Winner [1]) held_race_game)"



text \<open>The connection fields a handler leaves alone.\<close>

definition conn_same :: "game \<Rightarrow> game \<Rightarrow> bool" where
  "conn_same s s' = (socks s' = socks s \<and> timers s' = timers s)"

section \<open>Odds classifier\<close>

lemma js_le_Num:
  "js_le v (Num b) = (case v of Num a \<Rightarrow> a \<le> b | NegInf \<Rightarrow> True | _ \<Rightarrow> False)"
  by (cases v) auto

lemma getOddsTier_mono:
  "js_le a b \<Longrightarrow> tier_rank (getOddsTier a) \<le> tier_rank (getOddsTier b)"
  by (cases a; cases b) (simp_all add: getOddsTier_def tier_rank_def tiers_def)

text \<open>
  C4.  For every Number \<open>v\<close> the classifier returns one of the five tiers.  On a finite
  value \<open>x\<close> it is favorite for \<open>x \<le> 1.5\<close>, strong for \<open>1.5 < x \<le> 2.5\<close>, moderate for
  \<open>2.5 < x \<le> 4\<close>, long for \<open>4 < x \<le> 8\<close> and longshot above 8 (negative infinity is
  favorite; positive infinity and NaN fall through to longshot).  Each of the boundary
  values 1.5, 2.5, 4 and 8 belongs to the more favored tier, and a larger value never gets
  a more favored tier.
\<close>

theorem getOddsTier_tiers:
  "getOddsTier v \<in> set tiers \<and> distinct tiers \<and>
   getOddsTier (Num x) =
     (if x \<le> 3/2 then ''odds-favorite''
      else if x \<le> 5/2 then ''odds-strong''
      else if x \<le> 4 then ''odds-moderate''
      else if x \<le> 8 then ''odds-long''
      else ''odds-longshot'') \<and>
   getOddsTier NegInf = ''odds-favorite'' \<and>
   getOddsTier PosInf = ''odds-longshot'' \<and>
   getOddsTier NaN = ''odds-longshot'' \<and>
   getOddsTier (Num (3/2)) = ''odds-favorite'' \<and>
   getOddsTier (Num (5/2)) = ''odds-strong'' \<and>
   getOddsTier (Num 4) = ''odds-moderate'' \<and>
   getOddsTier (Num 8) = ''odds-long'' \<and>
   (js_le a b \<longrightarrow> tier_rank (getOddsTier a) \<le> tier_rank (getOddsTier b))"
proof -
  have "getOddsTier v \<in> set tiers"
    by (simp add: getOddsTier_def tiers_def)
  moreover have "distinct tiers"
    by (simp add: tiers_def)
  moreover have "getOddsTier (Num y) =
     (if y \<le> 3/2 then ''odds-favorite''
      else if y \<le> 5/2 then ''odds-strong''
      else if y \<le> 4 then ''odds-moderate''
      else if y \<le> 8 then ''odds-long''
      else ''odds-longshot'')" for y
    by (simp add: getOddsTier_def)
  moreover have "getOddsTier NegInf = ''odds-favorite''" "getOddsTier PosInf = ''odds-longshot''"
    "getOddsTier NaN = ''odds-longshot''"
    by (simp_all add: getOddsTier_def)
  ultimately show ?thesis
    using getOddsTier_mono [of a b] by simp
qed

theorem getOddsTier_tiers_witness:
  "js_le (Num (6/5)) (Num 12) \<and>
   tier_rank (getOddsTier (Num (6/5))) \<le> tier_rank (getOddsTier (Num 12)) \<and>
   getOddsTier (Num (6/5)) = ''odds-favorite'' \<and> getOddsTier (Num 12) = ''odds-longshot''"
  using getOddsTier_tiers [of "Num (6/5)" "6/5" "Num (6/5)" "Num 12"]
        getOddsTier_tiers [of "Num 12" 12 "Num (6/5)" "Num 12"]
  by (simp add: tier_rank_def tiers_def)

section \<open>Formatting odds\<close>

lemma dec_small: "n < 10 \<Longrightarrow> dec n = [digit n]"
  by (simp add: dec.simps)

lemma dec_step: "10 \<le> n \<Longrightarrow> dec n = dec (n div 10) @ [digit (n mod 10)]"
  by (subst dec.simps) simp

lemma length_dec_pos: "0 < length (dec n)"
  by (subst dec.simps) simp

lemma digit_mod: "digit (n mod 10) = digit n"
  by (simp add: digit_def)

text \<open>
  The padding and splitting of \<^verbatim>\<open>toFixed(2)\<close> gives the digits of the whole part, the
  point, and the tens and units digit of the number of hundredths.
\<close>

lemma fixed_digits_eq:
  "fixed_digits y =
     (let n = nat \<lfloor>y * 100 + 1/2\<rfloor>
      in dec (n div 100) @ ''.'' @ [digit (n div 10), digit n])"
proof -
  define n where "n = nat \<lfloor>y * 100 + 1/2\<rfloor>"
  consider "n < 10" | "10 \<le> n" "n < 100" | "100 \<le> n"
    by linarith
  then have "(let m = dec n; k = length m;
          m' = (if k \<le> 2 then replicate (3 - k) (CHR ''0'') @ m else m);
          k' = (if k \<le> 2 then 3 else k)
      in take (k' - 2) m' @ ''.'' @ drop (k' - 2) m')
     = dec (n div 100) @ ''.'' @ [digit (n div 10), digit n]"
  proof cases
    case 1
    then have "dec n = [digit n]" "n div 100 = 0" "n div 10 = 0"
      by (simp_all add: dec_small)
    then show ?thesis
      by (simp add: dec_small digit_def)
  next
    case 2
    then have two: "dec n = [digit (n div 10), digit n]"
      by (simp add: dec_step dec_small digit_mod)
    from 2 have "n div 100 = 0"
      by simp
    then show ?thesis
      using two by (simp add: dec_small digit_def numeral_3_eq_3)
  next
    case 3
    then have "10 \<le> n" "10 \<le> n div 10"
      by simp_all
    moreover have "n div 10 div 10 = n div 100"
      by (simp add: div_mult2_eq [symmetric])
    ultimately have many: "dec n = dec (n div 100) @ [digit (n div 10), digit n]"
      by (simp add: dec_step [of n] dec_step [of "n div 10"] digit_mod)
    have "0 < length (dec (n div 100))"
      by (rule length_dec_pos)
    then show ?thesis
      using many by (simp add: Let_def)
  qed
  then show ?thesis
    by (simp add: fixed_digits_def n_def Let_def)
qed

lemma formatOdds_fallback_iff:
  "formatOdds_fallback v \<longleftrightarrow> v \<in> {Null, Undefined, Number NaN, Number (Num 0)}"
  by (cases v) (auto simp: formatOdds_fallback_def)

text \<open>
  C8, as stated, fails at zero: 0 is a number, yet formatOdds takes the fallback and
  returns the default text instead of the two-decimal rendering of 0.  It also fails at
  infinity, which is not rendered with two decimals.
\<close>

theorem formatOdds_zero_counterexample:
  "formatOdds (Number (Num 0)) = Chars ''$2.00'' \<and>
   Number (Num 0) \<notin> {Null, Undefined, Number NaN} \<and>
   prepend ''$'' (toFixed2 (Num 0)) = Chars ''$0.00'' \<and>
   formatOdds (Number PosInf) = Chars ''$Infinity''"
  by (simp add: formatOdds_fallback_def toFixed2_def fixed_digits_eq dec_small digit_def)

text \<open>
  C8, amended.  formatOdds takes the fallback exactly when its argument is null,
  undefined, NaN or zero, and then returns the fixed text \<^verbatim>\<open>$2.00\<close>.  On every other
  finite number \<open>x\<close> of magnitude below \<open>10^21\<close> it returns the dollar sign, a minus sign
  when \<open>x\<close> is negative, and \<open>\<bar>x\<bar>\<close> rounded to the nearest hundredth (the upper one on a
  tie) with exactly two decimals: the digits of the whole part, the point and two digits.
  The infinities are rendered by their names, and a magnitude of \<open>10^21\<close> or more by
  Number::toString.
\<close>

theorem formatOdds_two_decimals:
  "formatOdds Null = Chars ''$2.00'' \<and>
   formatOdds Undefined = Chars ''$2.00'' \<and>
   formatOdds (Number NaN) = Chars ''$2.00'' \<and>
   formatOdds (Number (Num 0)) = Chars ''$2.00'' \<and>
   (formatOdds_fallback v \<longleftrightarrow> v \<in> {Null, Undefined, Number NaN, Number (Num 0)}) \<and>
   (x \<noteq> 0 \<and> \<bar>x\<bar> < 10 ^ 21 \<longrightarrow>
      formatOdds (Number (Num x)) =
        (let n = nat \<lfloor>\<bar>x\<bar> * 100 + 1/2\<rfloor>
         in Chars (''$'' @ (if x < 0 then ''-'' else []) @ dec (n div 100) @ ''.''
                   @ [digit (n div 10), digit n]))) \<and>
   (10 ^ 21 \<le> \<bar>x\<bar> \<longrightarrow>
      formatOdds (Number (Num x)) = CharsThenNumber (''$'' @ (if x < 0 then ''-'' else [])) \<bar>x\<bar>) \<and>
   formatOdds (Number PosInf) = Chars ''$Infinity'' \<and>
   formatOdds (Number NegInf) = Chars ''$-Infinity''"
  by (auto simp: formatOdds_fallback_iff formatOdds_fallback_def toFixed2_def fixed_digits_eq
      Let_def)

theorem formatOdds_two_decimals_witness:
  "(6/5::real) \<noteq> 0 \<and> \<bar>6/5::real\<bar> < 10 ^ 21 \<and>
   formatOdds (Number (Num (6/5))) = Chars ''$1.20'' \<and>
   (- 1/1000::real) \<noteq> 0 \<and> \<bar>- 1/1000::real\<bar> < 10 ^ 21 \<and>
   formatOdds (Number (Num (- 1/1000))) = Chars ''$-0.00''"
  using formatOdds_two_decimals [of "Number (Num (6/5))" "6/5"]
        formatOdds_two_decimals [of "Number (Num (- 1/1000))" "- 1/1000"]
  by (simp add: Let_def formatOdds_fallback_def dec_small digit_def)

section \<open>Race change\<close>

text \<open>
  C1.  When a race state arrives whose id differs from the id of the held race, or no
  race is held, updateRaceState ends with an empty bet ledger and an empty trifecta
  selection, whatever they held before, and with the new race adopted.  The reset comes
  first: no state the handler goes through pairs the new race with a non-empty ledger or
  selection, and the state after the two resets (the third of the trace) still holds the
  old race.
\<close>

theorem updateRaceState_resets_before_adopting:
  "is_new_race r s \<Longrightarrow>
     currentRaceBets (updateRaceState r s) = [] \<and>
     trifectaSelection (updateRaceState r s) = [] \<and>
     currentRace (updateRaceState r s) = Some r \<and>
     list_all (\<lambda>st. currentRace st = Some r \<longrightarrow>
                      currentRaceBets st = [] \<and> trifectaSelection st = [])
       (updateRaceState_trace r s) \<and>
     currentRace (updateRaceState_trace r s ! 2) = currentRace s \<and>
     currentRaceBets (updateRaceState_trace r s ! 2) = [] \<and>
     trifectaSelection (updateRaceState_trace r s ! 2) = [] \<and>
     currentRace (updateRaceState_trace r s ! 3) = Some r"
  by (auto simp: updateRaceState_def updateRaceState_trace_def updatePhase_def Let_def
      is_new_race_def split: option.splits)

theorem updateRaceState_resets_before_adopting_witness:
  "is_new_race (mk_race 2 Betting) old_race_game \<and>
   currentRaceBets old_race_game = [mk_bet Winner [1]] \<and>
   trifectaSelection old_race_game = [1, 2, 3] \<and>
   currentRaceBets (updateRaceState (mk_race 2 Betting) old_race_game) = [] \<and>
   trifectaSelection (updateRaceState (mk_race 2 Betting) old_race_game) = [] \<and>
   currentRace (updateRaceState (mk_race 2 Betting) old_race_game) = Some (mk_race 2 Betting) \<and>
   currentRace (updateRaceState_trace (mk_race 2 Betting) old_race_game ! 2)
     = Some (mk_race 1 Racing) \<and>
   is_new_race (mk_race 1 Results) new_game \<and>
   currentRaceBets (updateRaceState (mk_race 1 Results) new_game) = []"
  using updateRaceState_resets_before_adopting [of "mk_race 2 Betting" old_race_game]
        updateRaceState_resets_before_adopting [of "mk_race 1 Results" new_game]
  by (simp add: is_new_race_def old_race_game_def new_game_def connect_def mk_race_def)

section \<open>Trifecta selection\<close>

lemma selectTrifectaHorse_keeps_bounds:
  "selectedBetType s = Trifecta \<Longrightarrow> length (trifectaSelection s) \<le> 3 \<Longrightarrow>
   distinct (trifectaSelection s) \<Longrightarrow> \<bar>h\<bar> < 10 ^ 21 \<Longrightarrow>
   \<exists>s'. step (ClickHorse h) s = Some s' \<and> selectedBetType s' = Trifecta \<and>
     length (trifectaSelection s') \<le> 3 \<and> distinct (trifectaSelection s')"
  by (auto simp: selectHorse_def handleTrifectaSelection_def selectTrifectaHorse_def
      parseInt_def showError_def intro: le_trans [OF length_filter_le])

lemma run_clicks_keep_bounds:
  "selectedBetType s = Trifecta \<Longrightarrow> length (trifectaSelection s) \<le> 3 \<Longrightarrow>
   distinct (trifectaSelection s) \<Longrightarrow> list_all (\<lambda>x. \<bar>x\<bar> < 10 ^ 21) hs \<Longrightarrow>
   \<exists>s'. run (map ClickHorse hs) s = Some s' \<and> selectedBetType s' = Trifecta \<and>
     length (trifectaSelection s') \<le> 3 \<and> distinct (trifectaSelection s')"
proof (induction hs arbitrary: s)
  case Nil
  then show ?case by simp
next
  case (Cons h hs)
  from Cons.prems have "\<bar>h\<bar> < 10 ^ 21" and rest: "list_all (\<lambda>x. \<bar>x\<bar> < 10 ^ 21) hs"
    by simp_all
  with Cons.prems obtain s1 where s1: "step (ClickHorse h) s = Some s1"
      "selectedBetType s1 = Trifecta" "length (trifectaSelection s1) \<le> 3"
      "distinct (trifectaSelection s1)"
    using selectTrifectaHorse_keeps_bounds [of s h] by blast
  from Cons.IH [OF s1(2-4) rest] show ?case
    using s1(1) by simp
qed

text \<open>
  C2.  A toggle is a call of selectTrifectaHorse.  Its only call site is selectHorse, on
  a click on a horse button while trifecta is the selected bet type, so a sequence of
  toggles is a sequence of such clicks (on horses with ids of magnitude below \<open>10^21\<close>),
  here started with an empty selection.  Every such sequence runs to its end, and after
  it the selection has at most three ids and no id twice.  The next toggle removes the
  id when it is selected; appends it when it is not selected and fewer than three are;
  and otherwise (three are selected) raises the notice
  \<^verbatim>\<open>You can only select 3 horses for box trifecta\<close> and changes nothing else, so the
  selection is left as it is.
\<close>

theorem selectTrifectaHorse_sequences:
  "selectedBetType s0 = Trifecta \<Longrightarrow> trifectaSelection s0 = [] \<Longrightarrow>
   list_all (\<lambda>x. \<bar>x\<bar> < 10 ^ 21) (h # hs) \<Longrightarrow>
   (\<exists>s. run (map ClickHorse hs) s0 = Some s \<and>
      (let sel = trifectaSelection s in
         length sel \<le> 3 \<and> distinct sel \<and>
         step (ClickHorse h) s = selectTrifectaHorse h s \<and>
         (h \<in> set sel \<longrightarrow>
            selectTrifectaHorse h s = Some (s\<lparr>trifectaSelection := filter (\<lambda>i. i \<noteq> h) sel\<rparr>) \<and>
            set (filter (\<lambda>i. i \<noteq> h) sel) = set sel - {h}) \<and>
         (h \<notin> set sel \<and> length sel < 3 \<longrightarrow>
            selectTrifectaHorse h s = Some (s\<lparr>trifectaSelection := sel @ [h]\<rparr>)) \<and>
         (h \<notin> set sel \<and> length sel = 3 \<longrightarrow>
            selectTrifectaHorse h s =
              Some (s\<lparr>notices := notices s @ [''You can only select 3 horses for box trifecta'']\<rparr>))))"
proof -
  assume type: "selectedBetType s0 = Trifecta" and empty: "trifectaSelection s0 = []"
    and ids: "list_all (\<lambda>x. \<bar>x\<bar> < 10 ^ 21) (h # hs)"
  from ids have h: "\<bar>h\<bar> < 10 ^ 21" and hs: "list_all (\<lambda>x. \<bar>x\<bar> < 10 ^ 21) hs"
    by simp_all
  obtain s where s: "run (map ClickHorse hs) s0 = Some s" "selectedBetType s = Trifecta"
      "length (trifectaSelection s) \<le> 3" "distinct (trifectaSelection s)"
    using run_clicks_keep_bounds [of s0 hs] type empty hs by auto
  have "step (ClickHorse h) s = selectTrifectaHorse h s"
    using s(2) by (simp add: selectHorse_def handleTrifectaSelection_def)
  moreover have "selectTrifectaHorse h s
      = Some (s\<lparr>trifectaSelection := filter (\<lambda>i. i \<noteq> h) (trifectaSelection s)\<rparr>)"
    if "h \<in> set (trifectaSelection s)"
    using that s(2) h by (simp add: selectTrifectaHorse_def parseInt_def)
  moreover have "set (filter (\<lambda>i. i \<noteq> h) (trifectaSelection s)) = set (trifectaSelection s) - {h}"
    by auto
  moreover have "selectTrifectaHorse h s
      = Some (s\<lparr>trifectaSelection := trifectaSelection s @ [h]\<rparr>)"
    if "h \<notin> set (trifectaSelection s) \<and> length (trifectaSelection s) < 3"
    using that s(2) h by (simp add: selectTrifectaHorse_def parseInt_def)
  moreover have "selectTrifectaHorse h s
      = Some (s\<lparr>notices := notices s @ [''You can only select 3 horses for box trifecta'']\<rparr>)"
    if "h \<notin> set (trifectaSelection s) \<and> length (trifectaSelection s) = 3"
    using that s(2) h by (simp add: selectTrifectaHorse_def parseInt_def showError_def)
  ultimately show ?thesis
    using s(1,3,4) by (simp add: Let_def)
qed

lemma held_race_game_fields:
  "selectedBetType held_race_game = Winner" "trifectaSelection held_race_game = []"
  "currentRace held_race_game = Some (mk_race 1 Betting)"
  by (simp_all add: held_race_game_def new_game_def connect_def)

lemma trifecta_game_fields:
  "selectedBetType trifecta_game = Trifecta" "trifectaSelection trifecta_game = []"
  "currentRace trifecta_game = Some (mk_race 1 Betting)"
  by (simp_all add: trifecta_game_def held_race_game_fields)

lemma run_clicks_12:
  "run (map ClickHorse [1, 2]) trifecta_game = Some (trifecta_game\<lparr>trifectaSelection := [1, 2]\<rparr>)"
  by (simp add: selectHorse_def handleTrifectaSelection_def selectTrifectaHorse_def parseInt_def
      trifecta_game_fields)

lemma run_clicks_123:
  "run (map ClickHorse [1, 2, 3]) trifecta_game
     = Some (trifecta_game\<lparr>trifectaSelection := [1, 2, 3]\<rparr>)"
  by (simp add: selectHorse_def handleTrifectaSelection_def selectTrifectaHorse_def parseInt_def
      trifecta_game_fields)

theorem selectTrifectaHorse_sequences_witness:
  "selectedBetType trifecta_game = Trifecta \<and> trifectaSelection trifecta_game = [] \<and>
   run (map ClickHorse [1, 2, 3]) trifecta_game
     = Some (trifecta_game\<lparr>trifectaSelection := [1, 2, 3]\<rparr>) \<and>
   selectTrifectaHorse 4 (trifecta_game\<lparr>trifectaSelection := [1, 2, 3]\<rparr>)
     = Some (trifecta_game\<lparr>trifectaSelection := [1, 2, 3],
          notices := notices trifecta_game @ [''You can only select 3 horses for box trifecta'']\<rparr>) \<and>
   selectTrifectaHorse 2 (trifecta_game\<lparr>trifectaSelection := [1, 2, 3]\<rparr>)
     = Some (trifecta_game\<lparr>trifectaSelection := [1, 3]\<rparr>) \<and>
   selectTrifectaHorse 3 (trifecta_game\<lparr>trifectaSelection := [1, 2]\<rparr>)
     = Some (trifecta_game\<lparr>trifectaSelection := [1, 2, 3]\<rparr>)"
proof -
  have full: "selectTrifectaHorse 4 (trifecta_game\<lparr>trifectaSelection := [1, 2, 3]\<rparr>)
     = Some (trifecta_game\<lparr>trifectaSelection := [1, 2, 3],
          notices := notices trifecta_game @ [''You can only select 3 horses for box trifecta'']\<rparr>)"
    using selectTrifectaHorse_sequences [of trifecta_game 4 "[1, 2, 3]"]
    unfolding run_clicks_123 by (simp add: Let_def trifecta_game_fields)
  have remove: "selectTrifectaHorse 2 (trifecta_game\<lparr>trifectaSelection := [1, 2, 3]\<rparr>)
     = Some (trifecta_game\<lparr>trifectaSelection := [1, 3]\<rparr>)"
    using selectTrifectaHorse_sequences [of trifecta_game 2 "[1, 2, 3]"]
    unfolding run_clicks_123 by (simp add: Let_def trifecta_game_fields)
  have add: "selectTrifectaHorse 3 (trifecta_game\<lparr>trifectaSelection := [1, 2]\<rparr>)
     = Some (trifecta_game\<lparr>trifectaSelection := [1, 2, 3]\<rparr>)"
    using selectTrifectaHorse_sequences [of trifecta_game 3 "[1, 2]"]
    unfolding run_clicks_12 by (simp add: Let_def trifecta_game_fields)
  show ?thesis
    using full remove add run_clicks_123 by (simp add: trifecta_game_fields)
qed

section \<open>Mystery trifecta\<close>

lemma random_index_less:
  "0 < n \<Longrightarrow> Rep_index_source rnd i n < n"
  using Rep_index_source [of rnd] by simp

lemma mystery_loop_draw:
  "i < 3 \<Longrightarrow> horsesCopy \<noteq> [] \<Longrightarrow>
   mystery_loop rnd i horsesCopy selectedHorses =
     mystery_loop rnd (Suc i)
       (take (Rep_index_source rnd i (length horsesCopy)) horsesCopy
        @ drop (Suc (Rep_index_source rnd i (length horsesCopy))) horsesCopy)
       (selectedHorses @ [horsesCopy ! Rep_index_source rnd i (length horsesCopy)])"
  by (subst mystery_loop.simps) (simp add: Let_def)

lemma mystery_loop_stop:
  "\<not> i < 3 \<or> horsesCopy = [] \<Longrightarrow> mystery_loop rnd i horsesCopy selectedHorses = selectedHorses"
  by (subst mystery_loop.simps) auto

text \<open>
  The loop invariant: the loop adds as many picks as it has iterations and candidates
  left, every pick is a candidate, and when candidates and picks together hold no id
  twice, each pick is new.
\<close>

lemma mystery_loop_props:
  "i \<le> 3 \<Longrightarrow>
   length (mystery_loop rnd i cands sel) = length sel + min (3 - i) (length cands) \<and>
   set (mystery_loop rnd i cands sel) \<subseteq> set cands \<union> set sel \<and>
   (distinct (cands @ sel) \<longrightarrow> distinct (mystery_loop rnd i cands sel))"
proof (induction rnd i cands sel rule: mystery_loop.induct)
  case (1 rnd i horsesCopy selectedHorses)
  show ?case
  proof (cases "i < 3 \<and> length horsesCopy > 0")
    case False
    then show ?thesis
      using 1(2) by (subst (1 2 3) mystery_loop.simps) auto
  next
    case True
    define k where "k = Rep_index_source rnd i (length horsesCopy)"
    define rest where "rest = take k horsesCopy @ drop (Suc k) horsesCopy"
    have k: "k < length horsesCopy"
      unfolding k_def using True by (simp add: random_index_less)
    have split: "horsesCopy = take k horsesCopy @ horsesCopy ! k # drop (Suc k) horsesCopy"
      using k by (rule id_take_nth_drop)
    have fresh: "distinct (rest @ selectedHorses @ [horsesCopy ! k])"
      if d: "distinct (horsesCopy @ selectedHorses)"
    proof -
      have "distinct (take k horsesCopy @ horsesCopy ! k # drop (Suc k) horsesCopy @ selectedHorses)"
        using d split by (metis append.assoc append_Cons)
      then show ?thesis
        unfolding rest_def by auto
    qed
    have sets: "set rest \<union> {horsesCopy ! k} = set horsesCopy"
      unfolding rest_def by (subst (3) split) auto
    have len: "length rest = length horsesCopy - 1"
      unfolding rest_def using k by simp
    have unfold: "mystery_loop rnd i horsesCopy selectedHorses =
          mystery_loop rnd (i + 1) rest (selectedHorses @ [horsesCopy ! k])"
      using True by (subst mystery_loop.simps) (simp add: Let_def k_def rest_def)
    have IH: "length (mystery_loop rnd (i + 1) rest (selectedHorses @ [horsesCopy ! k])) =
                length (selectedHorses @ [horsesCopy ! k]) + min (3 - (i + 1)) (length rest) \<and>
              set (mystery_loop rnd (i + 1) rest (selectedHorses @ [horsesCopy ! k]))
                \<subseteq> set rest \<union> set (selectedHorses @ [horsesCopy ! k]) \<and>
              (distinct (rest @ selectedHorses @ [horsesCopy ! k]) \<longrightarrow>
               distinct (mystery_loop rnd (i + 1) rest (selectedHorses @ [horsesCopy ! k])))"
      using 1(1) [OF True k_def refl] True unfolding rest_def by simp
    show ?thesis
      unfolding unfold using IH sets len True k fresh by auto
  qed
qed

text \<open>
  C3.  While trifecta is the selected bet type and a race of \<open>N\<close> horses is held (the
  button of the mystery trifecta is on the trifecta panel, which is shown only then),
  selectMysteryTrifecta replaces the selection, whatever it held, by the ids the drawing
  loop picks from the ids of the race's horses, and changes nothing else.  These are
  exactly \<open>min N 3\<close> ids (3 when \<open>N \<ge> 3\<close>, \<open>N\<close> when \<open>N < 3\<close>), all of them ids of horses of
  the race, and pairwise distinct when the ids of the race's horses are, for every source
  of random indices.
\<close>

theorem selectMysteryTrifecta_draws:
  "selectedBetType s = Trifecta \<Longrightarrow> currentRace s = Some r \<Longrightarrow>
   (let ids = map horse_id (race_horses r);
        sel = mystery_loop rnd 0 ids []
    in selectMysteryTrifecta rnd s = s\<lparr>trifectaSelection := sel\<rparr> \<and>
       length sel = min (length ids) 3 \<and>
       (3 \<le> length ids \<longrightarrow> length sel = 3) \<and>
       (length ids < 3 \<longrightarrow> length sel = length ids) \<and>
       set sel \<subseteq> set ids \<and>
       (distinct ids \<longrightarrow> distinct sel))"
  using mystery_loop_props [of 0 rnd "map horse_id (race_horses r)" "[]"]
  by (auto simp: selectMysteryTrifecta_def clearTrifectaSelection_def Let_def min.commute)

lemma Rep_draw_half: "Rep_index_source draw_half i n = n div 2"
  by (simp add: draw_half_def Abs_index_source_inverse)

lemma Rep_draw_zero: "Rep_index_source draw_zero i n = 0"
  by (simp add: draw_zero_def Abs_index_source_inverse)

lemma four_horse_ids: "map horse_id (race_horses (mk_race rid ph)) = [1, 2, 3, 4]"
  by (simp add: mk_race_def four_horses_def mk_horse_def)

lemma two_horse_ids: "map horse_id (race_horses two_horse_race) = [1, 2]"
  by (simp add: two_horse_race_def mk_horse_def)

lemma stale_selection_game_fields:
  "selectedBetType stale_selection_game = Trifecta"
  "currentRace stale_selection_game = Some (mk_race 1 Betting)"
  "trifectaSelection stale_selection_game = [4]"
  by (simp_all add: stale_selection_game_def trifecta_game_fields)

lemma two_horse_game_fields:
  "selectedBetType two_horse_game = Trifecta" "currentRace two_horse_game = Some two_horse_race"
  by (simp_all add: two_horse_game_def trifecta_game_fields)

lemma mystery_loop_half: "mystery_loop draw_half 0 [1, 2, 3, 4] [] = [3, 2, 4]"
  by (simp add: mystery_loop_draw mystery_loop_stop Rep_draw_half)

lemma mystery_loop_zero: "mystery_loop draw_zero 0 [1, 2] [] = [1, 2]"
  by (simp add: mystery_loop_draw mystery_loop_stop Rep_draw_zero)

theorem selectMysteryTrifecta_draws_witness:
  "selectedBetType stale_selection_game = Trifecta \<and>
   currentRace stale_selection_game = Some (mk_race 1 Betting) \<and>
   map horse_id (race_horses (mk_race 1 Betting)) = [1, 2, 3, 4] \<and>
   trifectaSelection stale_selection_game = [4] \<and>
   selectMysteryTrifecta draw_half stale_selection_game
     = stale_selection_game\<lparr>trifectaSelection := [3, 2, 4]\<rparr> \<and>
   selectedBetType two_horse_game = Trifecta \<and>
   currentRace two_horse_game = Some two_horse_race \<and>
   map horse_id (race_horses two_horse_race) = [1, 2] \<and>
   selectMysteryTrifecta draw_zero two_horse_game = two_horse_game\<lparr>trifectaSelection := [1, 2]\<rparr>"
proof -
  have four: "selectMysteryTrifecta draw_half stale_selection_game
     = stale_selection_game\<lparr>trifectaSelection := [3, 2, 4]\<rparr>"
    using selectMysteryTrifecta_draws [of stale_selection_game "mk_race 1 Betting" draw_half]
    by (simp add: Let_def stale_selection_game_fields four_horse_ids mystery_loop_half)
  have two: "selectMysteryTrifecta draw_zero two_horse_game
     = two_horse_game\<lparr>trifectaSelection := [1, 2]\<rparr>"
    using selectMysteryTrifecta_draws [of two_horse_game two_horse_race draw_zero]
    by (simp add: Let_def two_horse_game_fields two_horse_ids mystery_loop_zero)
  show ?thesis
    using four two
    by (simp add: stale_selection_game_fields two_horse_game_fields four_horse_ids two_horse_ids)
qed

section \<open>Bet submission\<close>

lemma placeBet_rejects_closed:
  "betting_closed s \<Longrightarrow> placeBet s = showError ''Betting is closed'' s"
  by (simp add: placeBet_def)

lemma run_closed_phase_trail: "run closed_phase_trail new_game = Some racing_game"
  by (simp add: closed_phase_trail_def racing_game_def new_game_def connect_def set_ready_def
      ws_onopen_def login_def send_def ws_open_def handleMessage_def dispatch_def mk_message_def
      updateRaceState_def updateRaceState_trace_def is_new_race_def updatePhase_def mk_race_def
      selectBetType_def selectHorse_def handleTrifectaSelection_def selectTrifectaHorse_def parseInt_def Let_def)

lemma run_stale_phase_trail: "run stale_phase_trail new_game = Some racing_game"
  by (simp add: stale_phase_trail_def racing_game_def new_game_def connect_def set_ready_def
      ws_onopen_def login_def send_def ws_open_def handleMessage_def dispatch_def mk_message_def
      updateRaceState_def updateRaceState_trace_def is_new_race_def updatePhase_def mk_race_def
      selectBetType_def selectHorse_def handleTrifectaSelection_def selectTrifectaHorse_def
      parseInt_def Let_def)

lemma racing_game_fields:
  "currentRace racing_game = Some (mk_race 1 Racing)" "selectedBetType racing_game = Trifecta"
  "trifectaSelection racing_game = [1, 2, 3]" "currentRaceBets racing_game = []"
  "sent racing_game = [Login ''ann'']" "notices racing_game = []" "ws_open racing_game"
  by (simp_all add: racing_game_def new_game_def connect_def ws_open_def)

text \<open>
  C5.  placeBet rejects every attempt made while no race is held or the held race is not
  in its betting phase (lemma \<open>placeBet_rejects_closed\<close>), but the button that places a
  trifecta calls placeTrifectaBet, which has no such check.  Both sessions below end
  with three horses picked while the held race is in the phase racing: there placeBet
  raises the notice, while the click on the trifecta button sends a place_bet frame and
  raises no notice.
\<close>

theorem placeTrifectaBet_ignores_phase:
  "run closed_phase_trail new_game = Some racing_game \<and>
   run stale_phase_trail new_game = Some racing_game \<and>
   betting_closed racing_game \<and>
   placeBet racing_game = showError ''Betting is closed'' racing_game \<and>
   step ClickPlaceTrifecta racing_game =
     Some (racing_game\<lparr>sent := [Login ''ann'', PlaceBetFrame Trifecta 1 [1, 2, 3]],
                        trifectaSelection := []\<rparr>) \<and>
   notices (placeTrifectaBet racing_game) = []"
proof -
  have closed: "betting_closed racing_game"
    by (simp add: betting_closed_def racing_game_fields mk_race_def)
  have "placeTrifectaBet racing_game =
      racing_game\<lparr>sent := [Login ''ann'', PlaceBetFrame Trifecta 1 [1, 2, 3]],
                   trifectaSelection := []\<rparr>"
    by (simp add: placeTrifectaBet_def racing_game_fields send_def clearTrifectaSelection_def)
  then show ?thesis
    using closed placeBet_rejects_closed [OF closed]
    by (simp add: run_closed_phase_trail run_stale_phase_trail racing_game_fields)
qed




































lemma mk_bet_fields:
  "bet_kind (mk_bet t sel) = t" "bet_amount (mk_bet t sel) = 1" "bet_selection (mk_bet t sel) = sel"
  by (simp_all add: mk_bet_def)

lemma mk_horse_fields:
  "horse_id (mk_horse i name) = i" "horse_name (mk_horse i name) = name"
  by (simp_all add: mk_horse_def)






section \<open>Potential payout\<close>

text \<open>
  C7, as stated, fails when the odds of the bet's horse are not in the snapshot: the
  fallback odds 2.0 of getHorseCurrentOdds are used, and the display shows \<^verbatim>\<open>$2.00\<close>
  for the confirmed winner bet of amount 1, not the pending text \<^verbatim>\<open>TBD\<close>.
\<close>

theorem potentialPayout_unknown_odds_counterexample:
  "currentOdds unpriced_bet_game 1 = None \<and>
   map bet_kind (currentRaceBets unpriced_bet_game) = [Winner] \<and>
   map bet_amount (currentRaceBets unpriced_bet_game) = [1] \<and>
   map bet_selection (currentRaceBets unpriced_bet_game) = [[1]] \<and>
   updateActiveBetsDisplay unpriced_bet_game = [Some (Chars ''$2.00'')]"
  by (simp add: unpriced_bet_game_def updateRaceState_def updateRaceState_trace_def Let_def
      is_new_race_def updatePhase_def addBetToCurrentRace_def held_race_game_def new_game_def
      connect_def mk_race_def mk_bet_def four_horses_def mk_horse_def find_bet_horse_def
      getHorseCurrentOdds_def updateActiveBetsDisplay_def potentialPayout_def js_times_def
      toFixed2_def fixed_digits_eq dec_small digit_def)

text \<open>
  C7, amended.  For a trifecta bet the potential payout is the pending text \<^verbatim>\<open>TBD\<close>; so
  it is when no race is held, when the bet's selection is empty and when its horse is
  not among the horses of the held race.  For a winner or place bet of amount 1 (the
  amount of every bet the client submits) whose horse is among the horses of the held
  race: when the snapshot has odds for the horse, it is the amount times the winner or
  place odds, rendered by \<^verbatim>\<open>toFixed(2)\<close> after a dollar sign (and \<^verbatim>\<open>TBD\<close> when that odds
  value is zero); when the snapshot has no odds for the horse, it is the amount times
  the fallback odds 2.0, rendered the same way.
\<close>

theorem potentialPayout_cases:
  "(bet_kind b = Trifecta \<longrightarrow> potentialPayout s b = Some (Chars ''TBD'')) \<and>
   (find_bet_horse s b = None \<longrightarrow> potentialPayout s b = Some (Chars ''TBD'')) \<and>
   (bet_kind b \<noteq> Trifecta \<and> find_bet_horse s b = Some h \<and>
    currentOdds s (horse_id h) = Some e \<and> bet_amount b = 1 \<longrightarrow>
      potentialPayout s b =
        (let cur = (if bet_kind b = Winner then winner e else place e)
         in if cur = 0 then Some (Chars ''TBD'')
            else Some (prepend ''$'' (toFixed2 (Num (bet_amount b * cur)))))) \<and>
   (bet_kind b \<noteq> Trifecta \<and> find_bet_horse s b = Some h \<and>
    currentOdds s (horse_id h) = None \<and> bet_amount b = 1 \<longrightarrow>
      potentialPayout s b = Some (prepend ''$'' (toFixed2 (Num (bet_amount b * 2)))))"
  by (cases "bet_kind b")
     (auto simp: potentialPayout_def getHorseCurrentOdds_def find_bet_horse_def js_times_def
      Let_def split: option.splits)

lemma odds_game_fields:
  "currentRace odds_game = Some (mk_race 1 Racing)"
  "currentOdds odds_game 1 = Some \<lparr>winner = 5/4, place = 1\<rparr>"
  "currentOdds odds_game 2 = None"
  by (simp_all add: odds_game_def old_race_game_def new_game_def connect_def)

lemma find_bet_horse_odds_game:
  "find_bet_horse odds_game (mk_bet t [1]) = Some (mk_horse 1 ''Thunder'')"
  "find_bet_horse odds_game (mk_bet t [2]) = Some (mk_horse 2 ''Lightning'')"
  "find_bet_horse odds_game (mk_bet t [9]) = None"
  by (simp_all add: find_bet_horse_def odds_game_fields mk_bet_def mk_race_def four_horses_def
      mk_horse_def)

theorem potentialPayout_cases_witness:
  "potentialPayout odds_game (mk_bet Winner [1]) = Some (Chars ''$1.25'') \<and>
   potentialPayout odds_game (mk_bet Place [1]) = Some (Chars ''$1.00'') \<and>
   potentialPayout odds_game (mk_bet Winner [2]) = Some (Chars ''$2.00'') \<and>
   potentialPayout odds_game (mk_bet Winner [9]) = Some (Chars ''TBD'') \<and>
   potentialPayout odds_game (mk_bet Trifecta [1, 2, 3]) = Some (Chars ''TBD'')"
proof -
  have known: "potentialPayout odds_game (mk_bet Winner [1]) = Some (Chars ''$1.25'')"
    using potentialPayout_cases [of "mk_bet Winner [1]" odds_game "mk_horse 1 ''Thunder''"
        "\<lparr>winner = 5/4, place = 1\<rparr>"]
    by (simp add: find_bet_horse_odds_game odds_game_fields mk_bet_fields mk_horse_fields
        toFixed2_def fixed_digits_eq dec_small digit_def)
  have placed: "potentialPayout odds_game (mk_bet Place [1]) = Some (Chars ''$1.00'')"
    using potentialPayout_cases [of "mk_bet Place [1]" odds_game "mk_horse 1 ''Thunder''"
        "\<lparr>winner = 5/4, place = 1\<rparr>"]
    by (simp add: find_bet_horse_odds_game odds_game_fields mk_bet_fields mk_horse_fields
        toFixed2_def fixed_digits_eq dec_small digit_def)
  have unknown: "potentialPayout odds_game (mk_bet Winner [2]) = Some (Chars ''$2.00'')"
    using potentialPayout_cases [of "mk_bet Winner [2]" odds_game "mk_horse 2 ''Lightning''"]
    by (simp add: find_bet_horse_odds_game odds_game_fields mk_bet_fields mk_horse_fields
        toFixed2_def fixed_digits_eq dec_small digit_def)
  have absent: "potentialPayout odds_game (mk_bet Winner [9]) = Some (Chars ''TBD'')"
    using potentialPayout_cases [of "mk_bet Winner [9]" odds_game]
    by (simp add: find_bet_horse_odds_game)
  have tri: "potentialPayout odds_game (mk_bet Trifecta [1, 2, 3]) = Some (Chars ''TBD'')"
    using potentialPayout_cases [of "mk_bet Trifecta [1, 2, 3]" odds_game]
    by (simp add: mk_bet_fields)
  show ?thesis
    using known placed unknown absent tri by simp
qed

section \<open>User merge\<close>

text \<open>
  C10.  When no session exists, updateUser ends normally and leaves the whole state as
  it is, so a message with a user field is then handled as if it had none.  When a
  session exists, the state after updateUser differs from the state before only in the
  user object, which is the old one overridden by the fields of the payload: every field
  the payload does not carry keeps its value.
\<close>

theorem updateUser_partial_merge:
  "(user s = None \<longrightarrow> updateUser userData s = (Normal, s)) \<and>
   (user s = None \<and> msg_user m = Some userData \<longrightarrow> handleMessage m s = dispatch m s) \<and>
   (user s = Some u \<longrightarrow>
      snd (updateUser userData s) = s\<lparr>user := Some (u ++ userData)\<rparr> \<and>
      (userData f = None \<longrightarrow> (u ++ userData) f = u f) \<and>
      (userData f = Some v \<longrightarrow> (u ++ userData) f = Some v))"
  by (auto simp: updateUser_def updateBalance_field_def updateBalance_def handleMessage_def
      Let_def map_add_def fun_upd_idem split: option.splits json.splits)

theorem updateUser_partial_merge_witness:
  "user new_game = None \<and>
   updateUser balance_only new_game = (Normal, new_game) \<and>
   handleMessage \<lparr>msg_user = Some balance_only, msg_body = ConnectionEstablished\<rparr> new_game
     = (Normal, new_game) \<and>
   user logged_in_game = Some sample_user \<and>
   balance_only ''username'' = None \<and>
   balance_only ''balance'' = Some (JNum 9) \<and>
   sample_user ''balance'' = Some (JNum 10) \<and>
   snd (updateUser balance_only logged_in_game)
     = logged_in_game\<lparr>user := Some (sample_user ++ balance_only)\<rparr> \<and>
   (sample_user ++ balance_only) ''username'' = Some (JStr ''ann'') \<and>
   (sample_user ++ balance_only) ''balance'' = Some (JNum 9)"
proof -
  have none: "user new_game = None"
    by (simp add: new_game_def connect_def)
  have some: "user logged_in_game = Some sample_user"
    by (simp add: logged_in_game_def)
  show ?thesis
    using updateUser_partial_merge
            [of new_game balance_only "\<lparr>msg_user = Some balance_only, msg_body = ConnectionEstablished\<rparr>"]
          updateUser_partial_merge [of logged_in_game balance_only _ sample_user "''username''"]
          updateUser_partial_merge [of logged_in_game balance_only _ sample_user "''balance''" "JNum 9"]
          none some
    by (simp add: dispatch_def balance_only_def sample_user_def)
qed

section \<open>Reconnection\<close>

text \<open>No handler but the close handler and the timeout touches the sockets or the timers.\<close>

lemma conn_same_showError: "conn_same s (showError m s)"
  by (simp add: conn_same_def showError_def)

lemma conn_same_send: "conn_same s (send f s)"
  by (simp add: conn_same_def send_def showError_def)

lemma conn_same_login: "conn_same s (login s)"
  using conn_same_send conn_same_showError by (simp add: login_def)

lemma conn_same_placeTrifectaBet: "conn_same s (placeTrifectaBet s)"
  by (simp add: conn_same_def placeTrifectaBet_def clearTrifectaSelection_def send_def showError_def)

lemma conn_same_placeBet: "conn_same s (placeBet s)"
  using conn_same_placeTrifectaBet [of s]
  by (simp add: conn_same_def placeBet_def clearSelections_def send_def showError_def
      split: option.splits)

lemma conn_same_selectHorse: "selectHorse h s = Some s' \<Longrightarrow> conn_same s s'"
  using conn_same_placeBet [of "s\<lparr>selectedHorse := Some h\<rparr>"]
  by (auto simp: conn_same_def selectHorse_def handleTrifectaSelection_def
      selectTrifectaHorse_def handleSingleBetSelection_def showError_def
      split: option.splits if_splits)

lemma conn_same_selectMysteryTrifecta: "conn_same s (selectMysteryTrifecta rnd s)"
  by (simp add: conn_same_def selectMysteryTrifecta_def clearTrifectaSelection_def Let_def
      split: option.splits)

lemma conn_same_updateRaceState: "conn_same s (updateRaceState r s)"
  by (simp add: conn_same_def updateRaceState_def updateRaceState_trace_def updatePhase_def Let_def)

lemma conn_same_updateBalance_field: "conn_same s (snd (updateBalance_field v s))"
  by (simp add: conn_same_def updateBalance_field_def updateBalance_def
      split: option.splits json.splits)

lemma conn_same_updateUser: "conn_same s (snd (updateUser userData s))"
  using conn_same_updateBalance_field
  by (simp add: conn_same_def updateUser_def Let_def split: option.splits)

lemma conn_same_updateLeaderboard: "conn_same s (updateLeaderboard leaders rank s)"
  by (simp add: conn_same_def updateLeaderboard_def Let_def split: option.splits prod.splits)

lemma conn_same_showGameScreen: "conn_same s (snd (showGameScreen s))"
  by (simp add: conn_same_def showGameScreen_def updateBalance_field_def updateBalance_def
      send_def showError_def split: option.splits json.splits)

lemma conn_same_dispatch: "conn_same s (snd (dispatch m s))"
  using conn_same_showGameScreen [of "s\<lparr>user := msg_user m\<rparr>"] conn_same_updateRaceState
    conn_same_updateLeaderboard
  by (cases "msg_body m")
     (simp_all add: conn_same_def dispatch_def updateOdds_def updatePhase_def
        addBetToCurrentRace_def updateBalance_def showError_def Let_def)

lemma conn_same_handleMessage: "conn_same s (snd (handleMessage m s))"
proof (cases "msg_user m")
  case None
  then show ?thesis
    using conn_same_dispatch by (simp add: handleMessage_def)
next
  case (Some userData)
  obtain c s1 where merged: "updateUser userData s = (c, s1)"
    by (cases "updateUser userData s")
  have "conn_same s s1"
    using conn_same_updateUser [of s userData] merged by simp
  moreover have "conn_same s1 (snd (dispatch m s1))"
    by (rule conn_same_dispatch)
  ultimately show ?thesis
    using Some merged by (cases c) (simp_all add: handleMessage_def conn_same_def)
qed

lemma live_update_CLOSED:
  "k < length xs \<Longrightarrow> xs ! k \<noteq> CLOSED \<Longrightarrow>
   Suc (length (filter (\<lambda>r. r \<noteq> CLOSED) (xs[k := CLOSED])))
     = length (filter (\<lambda>r. r \<noteq> CLOSED) xs)"
proof (induction xs arbitrary: k)
  case Nil
  then show ?case by simp
next
  case (Cons x xs)
  then show ?case by (cases k) auto
qed

lemma live_update_OPEN:
  "k < length xs \<Longrightarrow> xs ! k \<noteq> CLOSED \<Longrightarrow>
   length (filter (\<lambda>r. r \<noteq> CLOSED) (xs[k := OPEN])) = length (filter (\<lambda>r. r \<noteq> CLOSED) xs)"
proof (induction xs arbitrary: k)
  case Nil
  then show ?case by simp
next
  case (Cons x xs)
  then show ?case by (cases k) auto
qed

lemma conn_same_balance:
  "conn_same s s' \<Longrightarrow>
   live_sockets s' + length (timers s') = live_sockets s + length (timers s)"
  by (simp add: conn_same_def live_sockets_def)

text \<open>
  Every event keeps the number of sockets that are not closed plus the number of pending
  timeouts: close turns one live socket into one timeout, the timeout turns into one new
  socket.
\<close>

lemma step_balance:
  assumes "step e s = Some s'"
  shows "live_sockets s' + length (timers s') = live_sockets s + length (timers s)"
proof (cases e)
  case (SocketOpen k)
  with assms have k: "k < length (socks s)" "socks s ! k = CONNECTING"
    and s': "s' = ws_onopen (set_ready k OPEN s)"
    by (auto split: if_splits)
  have "conn_same (set_ready k OPEN s\<lparr>connected := True\<rparr>) s'"
    unfolding s' ws_onopen_def by (rule conn_same_login)
  then show ?thesis
    using k by (simp add: conn_same_def live_sockets_def set_ready_def live_update_OPEN)
next
  case (SocketMessage k d)
  with assms consider "s' = s" | m where "s' = snd (handleMessage m s)"
    by (auto split: if_splits option.splits)
  then show ?thesis
  proof cases
    case 1
    then show ?thesis by simp
  next
    case 2
    then show ?thesis
      using conn_same_balance [OF conn_same_handleMessage] by simp
  qed
next
  case (SocketError k)
  with assms show ?thesis
    by (auto split: if_splits)
next
  case (SocketClose k)
  with assms have k: "k < length (socks s)" "socks s ! k \<noteq> CLOSED"
    and s': "s' = ws_onclose (set_ready k CLOSED s)"
    by (auto split: if_splits)
  show ?thesis
    using live_update_CLOSED [OF k]
    by (simp add: s' ws_onclose_def set_ready_def live_sockets_def)
next
  case ReconnectTimeout
  with assms show ?thesis
    by (auto simp: connect_def live_sockets_def split: list.splits)
next
  case (TypeUsername name)
  with assms show ?thesis
    by (auto simp: live_sockets_def)
next
  case SubmitLogin
  with assms show ?thesis
    using conn_same_balance [OF conn_same_login] by auto
next
  case (ClickBetType t)
  with assms show ?thesis
    by (auto simp: live_sockets_def selectBetType_def)
next
  case (ClickHorse h)
  with assms have "selectHorse h s = Some s'"
    by simp
  then show ?thesis
    by (intro conn_same_balance conn_same_selectHorse)
next
  case ClickPlaceTrifecta
  with assms show ?thesis
    using conn_same_balance [OF conn_same_placeTrifectaBet] by auto
next
  case (ClickMysteryTrifecta rnd)
  with assms show ?thesis
    using conn_same_balance [OF conn_same_selectMysteryTrifecta] by auto
next
  case ClickClearTrifecta
  with assms show ?thesis
    by (auto simp: live_sockets_def clearTrifectaSelection_def)
qed

lemma reachable_balance: "reachable s \<Longrightarrow> live_sockets s + length (timers s) = 1"
proof (induction rule: reachable.induct)
  case reachable_new
  show ?case
    by (simp add: new_game_def connect_def live_sockets_def)
next
  case (reachable_step s e s')
  then show ?case
    using step_balance by simp
qed

lemma live_socket_counts:
  "k < length (socks s) \<Longrightarrow> socks s ! k \<noteq> CLOSED \<Longrightarrow> 0 < live_sockets s"
proof -
  assume "k < length (socks s)" "socks s ! k \<noteq> CLOSED"
  then have "socks s ! k \<in> set (filter (\<lambda>r. r \<noteq> CLOSED) (socks s))"
    by simp
  then show ?thesis
    unfolding live_sockets_def by (rule length_pos_if_in_set)
qed

text \<open>
  C9.  The close handler adds one timeout of 3000 ms to the pending ones, in every state
  and however many attempts came before.  In every reachable state at most one such
  timeout is pending: the close event of a socket finds none pending and leaves exactly
  one, with no socket left alive, and the timeout, when it fires, leaves none pending
  and one new connecting socket in \<^verbatim>\<open>this.ws\<close>, whose close event schedules the next
  attempt in the same way.
\<close>

theorem reconnect_one_pending_timer:
  "reachable s \<Longrightarrow>
     length (timers s) \<le> 1 \<and>
     timers (ws_onclose s) = timers s @ [3000] \<and>
     (k < length (socks s) \<and> socks s ! k \<noteq> CLOSED \<longrightarrow>
        (\<exists>s'. step (SocketClose k) s = Some s' \<and> reachable s' \<and>
              timers s' = [3000] \<and> live_sockets s' = 0)) \<and>
     (timers s \<noteq> [] \<longrightarrow>
        (\<exists>s'. step ReconnectTimeout s = Some s' \<and> reachable s' \<and>
              timers s' = [] \<and> live_sockets s' = 1 \<and>
              ws s' = Some (length (socks s)) \<and> socks s' = socks s @ [CONNECTING]))"
proof -
  assume r: "reachable s"
  have bal: "live_sockets s + length (timers s) = 1"
    using r by (rule reachable_balance)
  have one: "length (timers s) \<le> 1"
    using bal by simp
  have sched: "timers (ws_onclose s) = timers s @ [3000]"
    by (simp add: ws_onclose_def)
  have close: "\<exists>s'. step (SocketClose k) s = Some s' \<and> reachable s' \<and>
      timers s' = [3000] \<and> live_sockets s' = 0"
    if k: "k < length (socks s)" "socks s ! k \<noteq> CLOSED"
  proof -
    have "0 < live_sockets s"
      using k by (rule live_socket_counts)
    then have "length (timers s) = 0"
      using bal by linarith
    then have none: "timers s = []"
      by simp
    have st: "step (SocketClose k) s = Some (ws_onclose (set_ready k CLOSED s))"
      using k by simp
    have r': "reachable (ws_onclose (set_ready k CLOSED s))"
      using r st by (rule reachable_step)
    then have "live_sockets (ws_onclose (set_ready k CLOSED s))
        + length (timers (ws_onclose (set_ready k CLOSED s))) = 1"
      by (rule reachable_balance)
    then show ?thesis
      using st r' none by (simp add: ws_onclose_def set_ready_def)
  qed
  have fire: "\<exists>s'. step ReconnectTimeout s = Some s' \<and> reachable s' \<and>
      timers s' = [] \<and> live_sockets s' = 1 \<and>
      ws s' = Some (length (socks s)) \<and> socks s' = socks s @ [CONNECTING]"
    if t: "timers s \<noteq> []"
  proof -
    from t one obtain d where d: "timers s = [d]"
      by (cases "timers s") auto
    then have dead: "live_sockets s = 0"
      using bal by simp
    have st: "step ReconnectTimeout s = Some (connect (s\<lparr>timers := []\<rparr>))"
      using d by simp
    have "reachable (connect (s\<lparr>timers := []\<rparr>))"
      using r st by (rule reachable_step)
    then show ?thesis
      using st dead by (simp add: connect_def live_sockets_def)
  qed
  show ?thesis
  proof (intro conjI impI)
    show "length (timers s) \<le> 1"
      by (rule one)
    show "timers (ws_onclose s) = timers s @ [3000]"
      by (rule sched)
    show "\<exists>s'. step (SocketClose k) s = Some s' \<and> reachable s' \<and>
        timers s' = [3000] \<and> live_sockets s' = 0"
      if "k < length (socks s) \<and> socks s ! k \<noteq> CLOSED"
      using that close by blast
    show "\<exists>s'. step ReconnectTimeout s = Some s' \<and> reachable s' \<and>
        timers s' = [] \<and> live_sockets s' = 1 \<and>
        ws s' = Some (length (socks s)) \<and> socks s' = socks s @ [CONNECTING]"
      if "timers s \<noteq> []"
      using that fire by blast
  qed
qed

lemma new_game_conn:
  "socks new_game = [CONNECTING]" "timers new_game = []" "ws new_game = Some 0"
  by (simp_all add: new_game_def connect_def)

theorem reconnect_one_pending_timer_witness:
  "reachable new_game \<and>
   socks new_game = [CONNECTING] \<and> timers new_game = [] \<and>
   step (SocketClose 0) new_game = Some (ws_onclose (set_ready 0 CLOSED new_game)) \<and>
   reachable (ws_onclose (set_ready 0 CLOSED new_game)) \<and>
   timers (ws_onclose (set_ready 0 CLOSED new_game)) = [3000] \<and>
   socks (ws_onclose (set_ready 0 CLOSED new_game)) = [CLOSED] \<and>
   step ReconnectTimeout (ws_onclose (set_ready 0 CLOSED new_game))
     = Some (connect (ws_onclose (set_ready 0 CLOSED new_game)\<lparr>timers := []\<rparr>)) \<and>
   timers (connect (ws_onclose (set_ready 0 CLOSED new_game)\<lparr>timers := []\<rparr>)) = [] \<and>
   socks (connect (ws_onclose (set_ready 0 CLOSED new_game)\<lparr>timers := []\<rparr>))
     = [CLOSED, CONNECTING] \<and>
   ws (connect (ws_onclose (set_ready 0 CLOSED new_game)\<lparr>timers := []\<rparr>)) = Some 1"
proof -
  have r0: "reachable new_game"
    by (rule reachable_new)
  have st: "step (SocketClose 0) new_game = Some (ws_onclose (set_ready 0 CLOSED new_game))"
    by (simp add: new_game_conn)
  have r1: "reachable (ws_onclose (set_ready 0 CLOSED new_game))"
    using r0 st by (rule reachable_step)
  have t1: "timers (ws_onclose (set_ready 0 CLOSED new_game)) = [3000]"
    "socks (ws_onclose (set_ready 0 CLOSED new_game)) = [CLOSED]"
    by (simp_all add: ws_onclose_def set_ready_def new_game_conn)
  show ?thesis
    using reconnect_one_pending_timer [OF r0, of 0] reconnect_one_pending_timer [OF r1, of 0]
      r0 r1 st t1
    by (simp add: new_game_conn connect_def)
qed

end
